theory Spec2Isabelle
  imports Main "HOL-Library.Sublist"
begin

section \<open>Interface schemas and the schema differ\<close>

text \<open>
  The parts of \<open>RpcInterfaces.Abi\<close> that the deployment command reads: the ordered table
  descriptors and the ordered record (struct) descriptors. The other members of an ABI
  (version, type aliases, actions, ...) are never inspected by the differ.
\<close>

record abi_field =
  field_name :: string
  field_type :: string

record abi_struct =
  struct_name :: string
  struct_base :: string
  struct_fields :: "abi_field list"

record abi_table =
  table_name :: string
  table_type :: string
  index_type :: string
  key_names :: "string list"
  key_types :: "string list"

record Abi =
  abi_tables :: "abi_table list"
  abi_structs :: "abi_struct list"

record table_diff =
  removed :: "string list"
  updated :: "string list"

text \<open>\<open>Array.prototype.findIndex\<close>: the index of the first element satisfying the
  predicate, \<open>-1\<close> when there is none.\<close>

fun findIndex :: "('a \<Rightarrow> bool) \<Rightarrow> 'a list \<Rightarrow> int" where
  "findIndex P [] = -1"
| "findIndex P (x # xs) =
     (if P x then 0
      else (let i = findIndex P xs in if i < 0 then -1 else i + 1))"

text \<open>\<open>abiStructs.find(item => item.name === structName)\<close>; \<open>undefined\<close> is \<open>None\<close>.\<close>

definition extractStruct :: "abi_struct list \<Rightarrow> string \<Rightarrow> abi_struct option" where
  "extractStruct abiStructs structName =
     List.find (\<lambda>item. struct_name item = structName) abiStructs"

text \<open>lodash \<open>isEqual\<close> on two possibly undefined record descriptors: deep structural
  equality, with \<open>undefined\<close> equal to \<open>undefined\<close> only.\<close>

definition isEqual :: "abi_struct option \<Rightarrow> abi_struct option \<Rightarrow> bool" where
  "isEqual a b = (a = b)"

text \<open>The body of the reducer in \<open>compareTables\<close>; \<open>push\<close> appends at the end.\<close>

definition compareStep :: "Abi \<Rightarrow> Abi \<Rightarrow> table_diff \<Rightarrow> abi_table \<Rightarrow> table_diff" where
  "compareStep existingABI newAbi accum tbl =
     (if findIndex (\<lambda>item. table_name item = table_name tbl) (abi_tables newAbi) < 0
      then accum\<lparr>removed := removed accum @ [table_name tbl]\<rparr>
      else
        (let existingStruct = extractStruct (abi_structs existingABI) (table_type tbl);
             newStruct = extractStruct (abi_structs newAbi) (table_type tbl)
         in if \<not> isEqual existingStruct newStruct
            then accum\<lparr>updated := updated accum @ [table_name tbl]\<rparr>
            else accum))"

definition compareTables :: "Abi \<Rightarrow> Abi \<Rightarrow> table_diff" where
  "compareTables existingABI newAbi =
     foldl (compareStep existingABI newAbi) \<lparr>removed = [], updated = []\<rparr>
       (abi_tables existingABI)"

text \<open>Concrete schemas used to exercise the differ.\<close>

definition rec_r :: abi_struct where
  "rec_r = \<lparr>struct_name = ''r'', struct_base = '''',
     struct_fields = [\<lparr>field_name = ''a'', field_type = ''uint64''\<rparr>]\<rparr>"

definition tbl_t :: abi_table where
  "tbl_t = \<lparr>table_name = ''t'', table_type = ''r'', index_type = ''i64'',
     key_names = [], key_types = []\<rparr>"

definition abi_no_structs :: Abi where
  "abi_no_structs = \<lparr>abi_tables = [tbl_t], abi_structs = []\<rparr>"

definition abi_with_r :: Abi where
  "abi_with_r = \<lparr>abi_tables = [tbl_t], abi_structs = [rec_r]\<rparr>"

text \<open>A table descriptor has a same-named table in the candidate schema.\<close>

definition tablePresent :: "Abi \<Rightarrow> abi_table \<Rightarrow> bool" where
  "tablePresent newAbi tbl = (table_name tbl \<in> table_name ` set (abi_tables newAbi))"

section \<open>Errors and the chain's read interface\<close>

text \<open>
  A thrown or rejected JavaScript value (it is typed \<open>any\<close>), as far as the command
  observes it: its \<open>message\<close> (empty when there is none), the messages of the entries of
  its \<open>details\<close> array (present on errors of the chain client; empty for an entry
  without message), whether \<open>typeof e === 'object'\<close>, and what \<open>JSON.stringify(e)\<close> does:
  it returns the JSON text, or it throws (a circular structure, a BigInt member, a
  throwing \<open>toJSON\<close>). Messages are kept without the colour codes that \<open>red\<close> adds for
  the terminal.
\<close>

datatype js_error =
  Thrown (err_message: string) (err_details: "string list") (err_is_object: bool)
    (err_json: "js_error + string")

text \<open>\<open>new Error(msg)\<close>: an object whose own enumerable properties are none.\<close>

definition Error :: "string \<Rightarrow> js_error" where
  "Error msg = Thrown msg [] True (Inr ''{}'')"

record scope_row =
  row_code :: string
  row_scope :: string
  row_table :: string
  row_payer :: string
  row_count :: nat

text \<open>\<open>network.rpc.get_table_by_scope({code, table})\<close>: the rows of the answer, or the
  rejection. The chain is read as a function of the request.\<close>

type_synonym table_rpc = "string \<Rightarrow> string \<Rightarrow> js_error + scope_row list"

section \<open>The risk assessor\<close>

text \<open>\<open>Promise.all\<close> over already settled promises: the list of values, or the first
  rejection.\<close>

fun promise_all :: "('e + 'a) list \<Rightarrow> 'e + 'a list" where
  "promise_all [] = Inr []"
| "promise_all (p # ps) =
     (case p of
        Inl e \<Rightarrow> Inl e
      | Inr v \<Rightarrow> (case promise_all ps of Inl e \<Rightarrow> Inl e | Inr vs \<Rightarrow> Inr (v # vs)))"

text \<open>The asynchronous callback mapped over the table names: the \<open>try\<close> block reads the
  rows, the \<open>catch\<close> block sets \<open>hasData = false\<close>; \<open>null\<close> is \<open>None\<close>.\<close>

definition probeTable :: "table_rpc \<Rightarrow> string \<Rightarrow> string \<Rightarrow> js_error + string option" where
  "probeTable get_table_by_scope account tableName =
     (let hasData = (case get_table_by_scope account tableName of
                       Inr rows \<Rightarrow> length rows > 0
                     | Inl err \<Rightarrow> False)
      in Inr (if hasData then Some tableName else None))"

text \<open>The result keeps the run-time representation of the filtered array (the
  \<open>as string[]\<close> of the source is a compile-time assertion only).\<close>

definition checkDataExists ::
  "table_rpc \<Rightarrow> string \<Rightarrow> string list \<Rightarrow> js_error + string option list" where
  "checkDataExists get_table_by_scope account tables =
     (case promise_all (map (probeTable get_table_by_scope account) tables) of
        Inl e \<Rightarrow> Inl e
      | Inr data \<Rightarrow> Inr (filter (\<lambda>item. item \<noteq> None) data))"

text \<open>A chain on which every table of every account holds one row.\<close>

definition rpc_one_row :: table_rpc where
  "rpc_one_row code tbl =
     Inr [\<lparr>row_code = code, row_scope = code, row_table = tbl, row_payer = code,
           row_count = 1\<rparr>]"

text \<open>The query for a table succeeds and returns at least one row.\<close>

definition hasRows :: "table_rpc \<Rightarrow> string \<Rightarrow> string \<Rightarrow> bool" where
  "hasRows rpc account t = (case rpc account t of Inr rows \<Rightarrow> rows \<noteq> [] | Inl err \<Rightarrow> False)"

text \<open>A chain on which table \<open>t1\<close> holds a row, the query for \<open>t2\<close> is rejected and
  every other table is empty.\<close>

definition rpc_mixed :: table_rpc where
  "rpc_mixed code tbl =
     (if tbl = ''t1'' then rpc_one_row code tbl
      else if tbl = ''t2'' then Inl (Error ''fetch failed'')
      else Inr [])"

section \<open>The error classifier\<close>

text \<open>
  Characters are 8-bit code units. Case mapping acts on the ASCII letters; no pattern of
  the table contains any other letter, and the case-insensitive comparison of a regular
  expression (without the unicode flag) never identifies a non-ASCII character with an
  ASCII one.
\<close>

definition ascii_lower :: string where
  "ascii_lower = ''abcdefghijklmnopqrstuvwxyz''"

definition ascii_upper :: string where
  "ascii_upper = ''ABCDEFGHIJKLMNOPQRSTUVWXYZ''"

definition toLowerCase_char :: "char \<Rightarrow> char" where
  "toLowerCase_char c =
     (case map_of (zip ascii_upper ascii_lower) c of Some l \<Rightarrow> l | None \<Rightarrow> c)"

definition toLowerCase :: "string \<Rightarrow> string" where
  "toLowerCase s = map toLowerCase_char s"

text \<open>\<open>Canonicalize\<close> of a case-insensitive regular expression: upper case.\<close>

definition canonicalize :: "char \<Rightarrow> char" where
  "canonicalize c =
     (case map_of (zip ascii_lower ascii_upper) c of Some u \<Rightarrow> u | None \<Rightarrow> c)"

text \<open>\<open>String.prototype.includes\<close>.\<close>

fun str_includes :: "string \<Rightarrow> string \<Rightarrow> bool" where
  "str_includes [] pat = (pat = [])"
| "str_includes (c # cs) pat = (prefix pat (c # cs) \<or> str_includes cs pat)"

text \<open>
  A matcher of the table is a string or a regular expression. Every regular expression
  of the table has the form \<open>/t1|...|tn/i\<close> with literal texts \<open>ti\<close> and no \<open>g\<close> or \<open>y\<close>
  flag, so \<open>test\<close> keeps no state between calls and succeeds iff some \<open>ti\<close> occurs in the
  subject up to case.
\<close>

datatype matcher = Str string | RegExpI "string list"

record error_hint =
  pattern :: matcher
  hint :: string

definition regexp_test :: "string list \<Rightarrow> string \<Rightarrow> bool" where
  "regexp_test alts subject =
     list_ex (\<lambda>alt. str_includes (map canonicalize subject) (map canonicalize alt)) alts"

definition ERROR_HINTS :: "error_hint list" where
  \<open>ERROR_HINTS = [
     \<lparr>pattern = RegExpI [''insufficient ram''],
      hint = ''Try buying more RAM: proton ram:buy <account> <account> <bytes>''\<rparr>,
     \<lparr>pattern = RegExpI [''tx_cpu_usage_exceeded'', ''billed CPU time''],
      hint = ''CPU limit exceeded. Wait a few minutes for your CPU to reset, or stake more XPR for resources.''\<rparr>,
     \<lparr>pattern = RegExpI [''tx_net_usage_exceeded''],
      hint = ''NET limit exceeded. Wait a few minutes for your NET to reset, or stake more XPR for resources.''\<rparr>,
     \<lparr>pattern = RegExpI [''unknown key''],
      hint = ''The signing key is not available. Make sure you have added the correct private key: proton key:add''\<rparr>,
     \<lparr>pattern = RegExpI [''overdrawn balance'', ''insufficient funds''],
      hint = ''Insufficient token balance for this transaction.''\<rparr>,
     \<lparr>pattern = RegExpI [''missing authority'', ''missing required authority''],
      hint = ''You don't have permission to perform this action. Check the account and permission.''\<rparr>,
     \<lparr>pattern = RegExpI [''deadline exceeded''],
      hint = ''Transaction timed out. The network may be congested, try again.''\<rparr>,
     \<lparr>pattern = RegExpI [''duplicate transaction''],
      hint = ''This exact transaction was already submitted. Wait a moment before retrying.''\<rparr>,
     \<lparr>pattern = RegExpI [''account does not exist''],
      hint = ''The specified account doesn't exist on this network.''\<rparr>
   ]\<close>

text \<open>The test made on one entry by the loop of \<open>getHintForError\<close>.\<close>

fun patternMatches :: "matcher \<Rightarrow> string \<Rightarrow> bool" where
  "patternMatches (Str p) errorMessage = str_includes (toLowerCase errorMessage) (toLowerCase p)"
| "patternMatches (RegExpI alts) errorMessage = regexp_test alts errorMessage"

text \<open>The \<open>for ... of\<close> loop with its early return, over any table of hints.\<close>

fun getHintFor :: "error_hint list \<Rightarrow> string \<Rightarrow> string option" where
  "getHintFor [] errorMessage = None"
| "getHintFor (entry # rest) errorMessage =
     (if patternMatches (pattern entry) errorMessage then Some (hint entry)
      else getHintFor rest errorMessage)"

definition getHintForError :: "string \<Rightarrow> string option" where
  "getHintForError errorMessage = getHintFor ERROR_HINTS errorMessage"

section \<open>The world of a run\<close>

text \<open>
  The command acts on the file system (directories with their entries), asks the
  operator, and calls the chain. A run is a function from the world before to its
  outcome (a thrown error or a value) and the world after; the world keeps the trace of
  the operator prompts, of the submitted transactions, of the error reports and of the
  follow-up action. Console output other than the error reports is not modelled.
\<close>

datatype tx_data =
    SetcodeData string nat nat string
  | SetabiData string string

record tx_action =
  act_account :: string
  act_name :: string
  act_data :: tx_data
  act_actor :: string
  act_permission :: string

datatype event =
    Prompted string bool
  | Transacted tx_action
  | ViewTx string
  | Reported string "string option"
  | StyledJSON js_error
  | EnabledInline string

record world =
  dirs :: "string \<rightharpoonup> string list"
  trace :: "event list"

type_synonym 'a io = "world \<Rightarrow> (js_error + 'a) \<times> world"

definition ret :: "'a \<Rightarrow> 'a io" where
  "ret a w = (Inr a, w)"

definition throw :: "js_error \<Rightarrow> 'a io" where
  "throw e w = (Inl e, w)"

text \<open>Sequencing of two awaited steps: a throw of the first skips the second.\<close>

definition andThen :: "'a io \<Rightarrow> ('a \<Rightarrow> 'b io) \<Rightarrow> 'b io" where
  "andThen m f w = (case m w of (Inl e, w') \<Rightarrow> (Inl e, w') | (Inr a, w') \<Rightarrow> f a w')"

text \<open>\<open>try { m } catch (error) { h(error) }\<close>: the effects of \<open>m\<close> up to the throw stay.\<close>

definition tryCatch :: "'a io \<Rightarrow> (js_error \<Rightarrow> 'a io) \<Rightarrow> 'a io" where
  "tryCatch m h w = (case m w of (Inl e, w') \<Rightarrow> h e w' | (Inr a, w') \<Rightarrow> (Inr a, w'))"

definition liftE :: "js_error + 'a \<Rightarrow> 'a io" where
  "liftE r w = (r, w)"

definition emit :: "event \<Rightarrow> unit io" where
  "emit ev w = (Inr (), w\<lparr>trace := trace w @ [ev]\<rparr>)"

record cli_flags =
  clear :: bool
  abiOnly :: bool
  wasmOnly :: bool
  disableInline :: bool

text \<open>What \<open>this.parse(options)\<close> returns: the values of the positional arguments that
  were requested (a value that was not requested is not read) and the flags.\<close>

record cli_input =
  in_account :: string
  in_source :: string
  in_flags :: cli_flags

text \<open>
  The collaborators of the command, outside this repository's deployment logic: the
  \<open>.contract\<close> file as parsed by dotenv, the connected chain, the argument parser (given
  the names of the requested arguments), the operator's answers (by question name),
  \<open>mkdtemp\<close>, \<open>path.join\<close>, the HTTPS download (by URL), reading the bytecode file,
  reading and parsing the schema file (with the missing members of \<open>abi_def\<close> filled in),
  the chain's read interface, the schema serializer, the chain's write interface, the
  \<open>enableinline\<close> command and \<open>CliUx.ux.styledJSON\<close>.
\<close>

record env =
  contractConfig :: "string \<rightharpoonup> string"
  network_chain :: string
  parse_cli :: "string list \<Rightarrow> js_error + cli_input"
  prompt_answer :: "string \<Rightarrow> bool"
  mkdtemp_result :: "js_error + string"
  path_join :: "string \<Rightarrow> string \<Rightarrow> string"
  http_get :: "string \<Rightarrow> js_error + unit"
  readFileSync :: "string \<Rightarrow> js_error + string"
  readAbiFile :: "string \<Rightarrow> js_error + Abi"
  get_abi :: "string \<Rightarrow> js_error + Abi option"
  get_table_by_scope :: table_rpc
  serialize_abi :: "Abi \<Rightarrow> js_error + string"
  transact :: "tx_action \<Rightarrow> js_error + string"
  enableInline :: "string \<Rightarrow> js_error + unit"
  styledJSON :: "js_error \<Rightarrow> js_error + unit"

section \<open>The artifact resolver\<close>

text \<open>\<open>String.prototype.split\<close> on a one-character separator.\<close>

fun split_str :: "char \<Rightarrow> string \<Rightarrow> string list" where
  "split_str sep [] = [[]]"
| "split_str sep (c # cs) =
     (if c = sep then [] # split_str sep cs
      else (case split_str sep cs of
              [] \<Rightarrow> [[c]]
            | part # parts \<Rightarrow> (c # part) # parts))"

text \<open>\<open>Array.prototype.join\<close>.\<close>

fun join_str :: "string \<Rightarrow> string list \<Rightarrow> string" where
  "join_str sep [] = []"
| "join_str sep [x] = x"
| "join_str sep (x # y # ys) = x @ sep @ join_str sep (y # ys)"

text \<open>\<open>/^https:\/\/github\.com/.test(dir)\<close>.\<close>

definition isGithub :: "string \<Rightarrow> bool" where
  "isGithub dir = prefix ''https://github.com'' dir"

text \<open>\<open>dir.replace(/^https:\/\/github\.com\//, '')\<close>.\<close>

definition stripGithub :: "string \<Rightarrow> string" where
  "stripGithub dir =
     (if prefix ''https://github.com/'' dir then drop (length ''https://github.com/'') dir
      else dir)"

text \<open>\<open>filePath.match(/.*\.(wasm)$/gi)\<close> is not null iff the name ends with the
  extension, compared case-insensitively; likewise for \<open>abi\<close>.\<close>

definition matchesExt :: "string \<Rightarrow> string \<Rightarrow> bool" where
  "matchesExt ext filePath =
     suffix (map canonicalize (''.'' @ ext)) (map canonicalize filePath)"

record deployable =
  wasmPath :: string
  abiPath :: string
  tmpFolder :: string

text \<open>Lines 95 to 115 of \<open>getDeployableFilesFromDir\<close>: the filters, the validation and
  the result, given the listing of the resolved directory.\<close>

definition deployableFromListing ::
  "(string \<Rightarrow> string \<Rightarrow> string) \<Rightarrow> string \<Rightarrow> string \<Rightarrow> string list \<Rightarrow> js_error + deployable" where
  \<open>deployableFromListing join dir tmp dirCont =
     (let wasms = filter (matchesExt ''wasm'') dirCont;
          abis = filter (matchesExt ''abi'') dirCont
      in if length wasms = 0 then Inl (Error (''Cannot find a ".wasm file" in '' @ dir))
         else if length abis = 0 then Inl (Error (''Cannot find a ".abi file" in '' @ dir))
         else if length wasms > 1 \<or> length abis > 1
           then Inl (Error (''Directory '' @ dir @ '' must contain only 1 WASM and 1 ABI''))
         else Inr \<lparr>wasmPath = join dir (wasms ! 0), abiPath = join dir (abis ! 0),
                   tmpFolder = tmp\<rparr>)\<close>

text \<open>\<open>mkdtemp\<close>: on success the fresh directory exists and is empty.\<close>

definition mkdtemp :: "env \<Rightarrow> string io" where
  "mkdtemp env w =
     (case mkdtemp_result env of
        Inl err \<Rightarrow> (Inl err, w)
      | Inr folder \<Rightarrow> (Inr folder, w\<lparr>dirs := (dirs w)(folder \<mapsto> [])\<rparr>))"

text \<open>\<open>download(url, join(folder, fileName))\<close>: on a 200 answer the file is created in
  the folder (flag \<open>wx\<close>: it must not exist yet); otherwise the promise rejects.\<close>

definition download :: "env \<Rightarrow> string \<Rightarrow> string \<Rightarrow> string \<Rightarrow> unit io" where
  "download env url folder fileName w =
     (case http_get env url of
        Inl err \<Rightarrow> (Inl err, w)
      | Inr u \<Rightarrow>
          (case dirs w folder of
             None \<Rightarrow> (Inl (Error (''ENOENT: no such file or directory, open '' @ folder)), w)
           | Some entries \<Rightarrow>
               if fileName \<in> set entries
               then (Inl (Error (''EEXIST: file already exists, open '' @ fileName)), w)
               else (Inr (), w\<lparr>dirs := (dirs w)(folder \<mapsto> entries @ [fileName])\<rparr>)))"

text \<open>The two downloads with their \<open>.then(() => true).catch(error => false)\<close>, joined by
  \<open>Promise.all\<close>; they are independent and taken one after the other.\<close>

fun downloadEach :: "env \<Rightarrow> string \<Rightarrow> string list \<Rightarrow> string \<Rightarrow> string list \<Rightarrow> bool list io" where
  "downloadEach env folder dirArr contractName [] = ret []"
| "downloadEach env folder dirArr contractName (ext # exts) =
     andThen
       (tryCatch
          (andThen
             (download env
                (''https://raw.githubusercontent.com/'' @ join_str ''/'' dirArr @ ''/''
                   @ contractName @ ''.'' @ ext)
                folder (contractName @ ''.'' @ ext))
             (\<lambda>u. ret True))
          (\<lambda>error. ret False))
       (\<lambda>status. andThen (downloadEach env folder dirArr contractName exts)
          (\<lambda>statuses. ret (status # statuses)))"

text \<open>The branch for a GitHub source. \<open>dirArr\<close> is never empty, so its last element
  exists.\<close>

definition stageFromGithub :: "env \<Rightarrow> string \<Rightarrow> string io" where
  "stageFromGithub env dir =
     andThen (mkdtemp env) (\<lambda>folder.
       let parts = split_str (CHR ''/'') (stripGithub dir);
           dirArr = take 2 parts @ drop 3 parts;
           contractName = last dirArr
       in andThen (downloadEach env folder dirArr contractName [''wasm'', ''abi''])
            (\<lambda>allDownloaded. ret folder))"

definition readdirSync :: "string \<Rightarrow> string list io" where
  "readdirSync dir w =
     (case dirs w dir of
        None \<Rightarrow> (Inl (Error (''ENOENT: no such file or directory, scandir '' @ dir)), w)
      | Some dirCont \<Rightarrow> (Inr dirCont, w))"

definition getDeployableFilesFromDir :: "env \<Rightarrow> string \<Rightarrow> deployable io" where
  "getDeployableFilesFromDir env source =
     andThen (if isGithub source then stageFromGithub env source else ret [])
       (\<lambda>tmp.
          let dir = (if isGithub source then tmp else source)
          in andThen (readdirSync dir)
               (\<lambda>dirCont. liftE (deployableFromListing (path_join env) dir tmp dirCont)))"

section \<open>The deployment pipeline\<close>

text \<open>
  \<open>parseDetailsError\<close>: the message is the first detail's message, else the value's
  message, else empty. With a message, or for an object, the message is printed, or
  when it is empty the text that \<open>JSON.stringify(e)\<close> returns, and then the classifier's
  hint when there is one; \<open>JSON.stringify\<close> may throw, and nothing catches that. Any
  other value is handed to \<open>styledJSON\<close>.
\<close>

definition errorMessageOf :: "js_error \<Rightarrow> string" where
  "errorMessageOf e =
     (let error = (case err_details e of [] \<Rightarrow> [] | d # ds \<Rightarrow> d)
      in if error \<noteq> [] then error else err_message e)"

definition parseDetailsError :: "env \<Rightarrow> js_error \<Rightarrow> unit io" where
  "parseDetailsError env e =
     (let errorMessage = errorMessageOf e
      in if errorMessage \<noteq> [] \<or> err_is_object e
         then andThen (if errorMessage \<noteq> [] then ret errorMessage else liftE (err_json e))
                (\<lambda>text. emit (Reported text (getHintForError errorMessage)))
         else andThen (liftE (styledJSON env e)) (\<lambda>u. emit (StyledJSON e)))"

text \<open>\<open>prompt\<close> with one confirm question.\<close>

definition prompt :: "env \<Rightarrow> string \<Rightarrow> bool io" where
  "prompt env name =
     andThen (emit (Prompted name (prompt_answer env name)))
       (\<lambda>u. ret (prompt_answer env name))"

text \<open>\<open>Array.prototype.join\<close> on the assessor's result; a \<open>null\<close> element is rendered as
  the empty string.\<close>

definition joinNames :: "string \<Rightarrow> string option list \<Rightarrow> string" where
  "joinNames sep items =
     join_str sep (map (\<lambda>item. case item of None \<Rightarrow> [] | Some n \<Rightarrow> n) items)"

text \<open>One of the two risk checks: the text it adds to \<open>warning\<close>.\<close>

definition riskText :: "env \<Rightarrow> string \<Rightarrow> string \<Rightarrow> string list \<Rightarrow> string io" where
  "riskText env account verb tables =
     (if length tables > 0
      then andThen (liftE (checkDataExists (get_table_by_scope env) account tables))
             (\<lambda>found.
                ret (if length found > 0
                     then ''The following tables you are going to '' @ verb
                            @ '' have rows:\<newline>    '' @ joinNames ''\<newline>    '' found
                            @ ''\<newline>''
                     else []))
      else ret [])"

record prepared =
  p_wasm :: string
  p_abi :: string
  p_folderToCleanup :: string
  p_canDeploy :: bool

text \<open>The block \<open>if (!flags.clear) { ... }\<close> of \<open>run\<close>; its result is the value of the
  variables \<open>wasm\<close>, \<open>abi\<close>, \<open>folderToCleanup\<close> and \<open>canDeploy\<close> after it.\<close>

definition prepare :: "env \<Rightarrow> string \<Rightarrow> string \<Rightarrow> prepared io" where
  "prepare env account source =
     andThen (getDeployableFilesFromDir env source) (\<lambda>files.
     andThen (liftE (readFileSync env (wasmPath files))) (\<lambda>wasm.
     andThen (liftE (readAbiFile env (abiPath files))) (\<lambda>abiFields.
     andThen (liftE (get_abi env account)) (\<lambda>existingABI.
     andThen
       (case existingABI of
          None \<Rightarrow> ret []
        | Some existing \<Rightarrow>
            (let tablesToCheck = compareTables existing abiFields
             in andThen (riskText env account ''remove'' (removed tablesToCheck))
                  (\<lambda>w1. andThen (riskText env account ''change'' (updated tablesToCheck))
                     (\<lambda>w2. ret (w1 @ w2)))))
       (\<lambda>warning.
     andThen (if warning \<noteq> [] then prompt env ''confirmedToContinue'' else ret True)
       (\<lambda>canDeploy.
     andThen (liftE (serialize_abi env abiFields)) (\<lambda>abi.
       ret \<lparr>p_wasm = wasm, p_abi = abi, p_folderToCleanup = tmpFolder files,
            p_canDeploy = canDeploy\<rparr>)))))))"

definition setcodeAction :: "string \<Rightarrow> string \<Rightarrow> tx_action" where
  "setcodeAction account wasm =
     \<lparr>act_account = ''eosio'', act_name = ''setcode'',
      act_data = SetcodeData account 0 0 wasm,
      act_actor = account, act_permission = ''active''\<rparr>"

definition setabiAction :: "string \<Rightarrow> string \<Rightarrow> tx_action" where
  "setabiAction account abi =
     \<lparr>act_account = ''eosio'', act_name = ''setabi'',
      act_data = SetabiData account abi,
      act_actor = account, act_permission = ''active''\<rparr>"

text \<open>\<open>network.transact({actions: [action]})\<close>.\<close>

definition transactIO :: "env \<Rightarrow> tx_action \<Rightarrow> string io" where
  "transactIO env action =
     andThen (emit (Transacted action)) (\<lambda>u. liftE (transact env action))"

text \<open>One submission: \<open>try { transact; log } catch (error) { parseDetailsError(error) }\<close>.\<close>

definition submit :: "env \<Rightarrow> tx_action \<Rightarrow> unit io" where
  "submit env action =
     tryCatch
       (andThen (transactIO env action) (\<lambda>transaction_id. emit (ViewTx transaction_id)))
       (\<lambda>error. parseDetailsError env error)"

definition enableInlineIO :: "env \<Rightarrow> string \<Rightarrow> unit io" where
  "enableInlineIO env account =
     andThen (emit (EnabledInline account)) (\<lambda>u. liftE (enableInline env account))"

text \<open>The block \<open>if (canDeploy) { ... }\<close> of \<open>run\<close>.\<close>

definition deploy :: "env \<Rightarrow> cli_flags \<Rightarrow> string \<Rightarrow> string \<Rightarrow> string \<Rightarrow> unit io" where
  "deploy env flags account wasm abi =
     andThen (if \<not> abiOnly flags then submit env (setcodeAction account wasm) else ret ())
       (\<lambda>u. andThen (if \<not> wasmOnly flags then submit env (setabiAction account abi) else ret ())
          (\<lambda>u. if \<not> disableInline flags then enableInlineIO env account else ret ()))"

text \<open>\<open>rmSync(folder, {recursive: true})\<close>.\<close>

definition rmSync :: "string \<Rightarrow> unit io" where
  "rmSync folder w =
     (case dirs w folder of
        None \<Rightarrow> (Inl (Error (''ENOENT: no such file or directory, rm '' @ folder)), w)
      | Some entries \<Rightarrow> (Inr (), w\<lparr>dirs := (dirs w)(folder := None)\<rparr>))"

text \<open>The block \<open>if (confirmed) { ... }\<close> of \<open>run\<close>.\<close>

definition runConfirmed :: "env \<Rightarrow> cli_flags \<Rightarrow> string \<Rightarrow> string \<Rightarrow> unit io" where
  "runConfirmed env flags account source =
     andThen
       (if \<not> clear flags then prepare env account source
        else ret \<lparr>p_wasm = [], p_abi = [], p_folderToCleanup = [], p_canDeploy = True\<rparr>)
       (\<lambda>p. andThen
          (if p_canDeploy p then deploy env flags account (p_wasm p) (p_abi p) else ret ())
          (\<lambda>u. if p_folderToCleanup p \<noteq> [] then rmSync (p_folderToCleanup p) else ret ()))"

text \<open>A configuration value is used when it is present and not the empty string.\<close>

definition truthy :: "string option \<Rightarrow> bool" where
  "truthy v = (case v of None \<Rightarrow> False | Some s \<Rightarrow> s \<noteq> [])"

definition configValue :: "string option \<Rightarrow> string" where
  "configValue v = (case v of None \<Rightarrow> [] | Some s \<Rightarrow> s)"

text \<open>\<open>options.args\<close>: the positional arguments not preset by the \<open>.contract\<close> file.\<close>

definition optionsArgs :: "env \<Rightarrow> string list" where
  "optionsArgs env =
     (if truthy (contractConfig env ''ACCOUNT'') then [] else [''account''])
       @ (if truthy (contractConfig env ''SOURCE'') then [] else [''source''])"

definition run :: "env \<Rightarrow> unit io" where
  \<open>run env =
     (let cfg = contractConfig env;
          expectedNetwork =
            (if truthy (cfg ''NETWORK'') \<and> network_chain env \<noteq> configValue (cfg ''NETWORK'')
             then configValue (cfg ''NETWORK'') else [])
      in if expectedNetwork \<noteq> []
         then throw (Error (''Wrong network "'' @ network_chain env @ ''". "'' @ expectedNetwork
                              @ ''" is expected''))
         else andThen (liftE (parse_cli env (optionsArgs env))) (\<lambda>input.
           let account = (if truthy (cfg ''ACCOUNT'') then configValue (cfg ''ACCOUNT'')
                          else in_account input);
               source = (if truthy (cfg ''SOURCE'') then configValue (cfg ''SOURCE'')
                         else in_source input)
           in andThen
                (if \<not> truthy (cfg ''ACCOUNT'') then prompt env ''confirmedContract''
                 else ret True)
                (\<lambda>confirmed.
                   if confirmed then runConfirmed env (in_flags input) account source
                   else ret ())))\<close>



section \<open>Concrete runs\<close>

definition slash_join :: "string \<Rightarrow> string \<Rightarrow> string" where
  "slash_join dir name = dir @ ''/'' @ name"

definition no_flags :: cli_flags where
  "no_flags = \<lparr>clear = False, abiOnly = False, wasmOnly = False, disableInline = False\<rparr>"


definition empty_world :: world where
  "empty_world = \<lparr>dirs = Map.empty, trace = []\<rparr>"

definition abi_empty :: Abi where
  "abi_empty = \<lparr>abi_tables = [], abi_structs = []\<rparr>"

text \<open>
  A run preset by a \<open>.contract\<close> file with a GitHub source, on an account whose deployed
  schema has the table \<open>t\<close>, which holds a row; the candidate schema has no table. The
  staging directory is \<open>/tmp/foo-Ab12\<close>. The download of the schema file succeeds; the
  download of the bytecode file succeeds or is answered with status 404, as the
  parameter says. The operator declines at the risk confirmation.
\<close>

definition env_github :: "bool \<Rightarrow> env" where
  "env_github wasm_ok =
     \<lparr>contractConfig = [''ACCOUNT'' \<mapsto> ''myacct'',
                         ''SOURCE'' \<mapsto> ''https://github.com/org/repo/tree/main/c''],
      network_chain = ''proton'',
      parse_cli = (\<lambda>requested. Inr \<lparr>in_account = [], in_source = [], in_flags = no_flags\<rparr>),
      prompt_answer = (\<lambda>name. name \<noteq> ''confirmedToContinue''),
      mkdtemp_result = Inr ''/tmp/foo-Ab12'',
      path_join = slash_join,
      http_get = (\<lambda>url.
         if url = ''https://raw.githubusercontent.com/org/repo/main/c/c.wasm'' \<and> \<not> wasm_ok
         then Inl (Error ''Download request failed, response status: 404 Not Found'')
         else Inr ()),
      readFileSync = (\<lambda>path. Inr ''wasm-bytes''),
      readAbiFile = (\<lambda>path. Inr abi_empty),
      get_abi = (\<lambda>account. Inr (Some abi_with_r)),
      get_table_by_scope = rpc_one_row,
      serialize_abi = (\<lambda>abi. Inr ''0e''),
      transact = (\<lambda>action. Inr ''tx1''),
      enableInline = (\<lambda>account. Inr ()),
      styledJSON = (\<lambda>e. Inr ())\<rparr>"







section \<open>Verified properties\<close>

subsection \<open>The schema differ\<close>

lemma findIndex_ge_m1: "- 1 \<le> findIndex P xs"
  by (induction xs) (auto simp: Let_def)

lemma findIndex_neg_iff: "findIndex P xs < 0 \<longleftrightarrow> (\<forall>x \<in> set xs. \<not> P x)"
proof (induction xs)
  case Nil
  show ?case by simp
next
  case (Cons x xs)
  have "- 1 \<le> findIndex P xs" by (rule findIndex_ge_m1)
  with Cons show ?case by (auto simp: Let_def)
qed

lemma findIndex_present:
  "findIndex (\<lambda>item. table_name item = table_name tbl) (abi_tables newAbi) < 0
     \<longleftrightarrow> \<not> tablePresent newAbi tbl"
  unfolding findIndex_neg_iff tablePresent_def image_iff by metis

lemma compareStep_absent:
  "\<not> tablePresent n t \<Longrightarrow>
     compareStep e n acc t = acc\<lparr>removed := removed acc @ [table_name t]\<rparr>"
  by (simp add: compareStep_def findIndex_present)

lemma compareStep_present:
  "tablePresent n t \<Longrightarrow>
     compareStep e n acc t =
       (if extractStruct (abi_structs e) (table_type t)
            \<noteq> extractStruct (abi_structs n) (table_type t)
        then acc\<lparr>updated := updated acc @ [table_name t]\<rparr> else acc)"
  by (simp add: compareStep_def findIndex_present isEqual_def Let_def)

lemma foldl_compareStep:
  "foldl (compareStep e n) acc ts =
     \<lparr>removed = removed acc @ map table_name (filter (\<lambda>t. \<not> tablePresent n t) ts),
      updated = updated acc @ map table_name
        (filter (\<lambda>t. tablePresent n t \<and>
           extractStruct (abi_structs e) (table_type t)
             \<noteq> extractStruct (abi_structs n) (table_type t)) ts)\<rparr>"
proof (induction ts arbitrary: acc)
  case Nil
  show ?case by simp
next
  case (Cons t ts)
  show ?case
  proof (cases "tablePresent n t")
    case False
    then show ?thesis
      by (simp add: Cons.IH compareStep_absent)
  next
    case True
    then show ?thesis
      by (simp add: Cons.IH compareStep_present)
  qed
qed

lemma compareTables_removed:
  "removed (compareTables e n) =
     map table_name (filter (\<lambda>t. \<not> tablePresent n t) (abi_tables e))"
  by (simp add: compareTables_def foldl_compareStep)

lemma compareTables_updated:
  "updated (compareTables e n) =
     map table_name
       (filter (\<lambda>t. tablePresent n t \<and>
          extractStruct (abi_structs e) (table_type t)
            \<noteq> extractStruct (abi_structs n) (table_type t)) (abi_tables e))"
  by (simp add: compareTables_def foldl_compareStep)

lemma filter_False_conv: "(\<And>x. x \<in> set xs \<Longrightarrow> \<not> P x) \<Longrightarrow> filter P xs = []"
  by (induction xs) auto

text \<open>
  C6. Diffing a schema against itself reports nothing: there is no removed table and no
  updated table.
\<close>

theorem compareTables_self: "compareTables S S = \<lparr>removed = [], updated = []\<rparr>"
proof -
  have r: "removed (compareTables S S) = []"
  proof -
    have "filter (\<lambda>t. \<not> tablePresent S t) (abi_tables S) = []"
      by (rule filter_False_conv) (simp add: tablePresent_def)
    then show ?thesis by (simp add: compareTables_removed)
  qed
  have u: "updated (compareTables S S) = []"
    unfolding compareTables_updated by simp
  show ?thesis using r u by (cases "compareTables S S") simp
qed

text \<open>
  C3 (as stated). A table present in both schemas whose record descriptor is missing
  from both record lists is not classified as updated: both lookups give \<open>undefined\<close>,
  and \<open>isEqual(undefined, undefined)\<close> holds.
\<close>

theorem compareTables_both_miss_counterexample:
  "tbl_t \<in> set (abi_tables abi_no_structs)
   \<and> table_name tbl_t \<in> table_name ` set (abi_tables abi_no_structs)
   \<and> extractStruct (abi_structs abi_no_structs) (table_type tbl_t) = None
   \<and> table_name tbl_t \<notin> set (updated (compareTables abi_no_structs abi_no_structs))"
  by (simp add: compareTables_def compareStep_def abi_no_structs_def tbl_t_def
        extractStruct_def isEqual_def)

text \<open>
  C3 (amended). For a table of the existing schema whose name also occurs in the
  candidate schema: if exactly one of the two lookups made by the differ (the existing
  record list and the candidate record list, both searched for the record-type name of
  the existing table entry) misses, the table is classified as updated.
\<close>

theorem compareTables_one_miss_updated:
  assumes "tbl \<in> set (abi_tables existingABI)"
    and "table_name tbl \<in> table_name ` set (abi_tables newAbi)"
    and "(extractStruct (abi_structs existingABI) (table_type tbl) = None)
           \<noteq> (extractStruct (abi_structs newAbi) (table_type tbl) = None)"
  shows "table_name tbl \<in> set (updated (compareTables existingABI newAbi))"
proof -
  from assms(3)
  have "extractStruct (abi_structs existingABI) (table_type tbl)
          \<noteq> extractStruct (abi_structs newAbi) (table_type tbl)"
    by auto
  with assms(1,2) show ?thesis
    unfolding compareTables_updated by (simp add: tablePresent_def image_iff) blast
qed

theorem compareTables_one_miss_updated_witness:
  "tbl_t \<in> set (abi_tables abi_with_r)
   \<and> table_name tbl_t \<in> table_name ` set (abi_tables abi_no_structs)
   \<and> extractStruct (abi_structs abi_with_r) (table_type tbl_t) = Some rec_r
   \<and> extractStruct (abi_structs abi_no_structs) (table_type tbl_t) = None
   \<and> table_name tbl_t \<in> set (updated (compareTables abi_with_r abi_no_structs))"
proof -
  have h1: "tbl_t \<in> set (abi_tables abi_with_r)"
    by (simp add: abi_with_r_def)
  have h2: "table_name tbl_t \<in> table_name ` set (abi_tables abi_no_structs)"
    by (simp add: abi_no_structs_def)
  have e1: "extractStruct (abi_structs abi_with_r) (table_type tbl_t) = Some rec_r"
    by (simp add: abi_with_r_def extractStruct_def tbl_t_def rec_r_def)
  have e2: "extractStruct (abi_structs abi_no_structs) (table_type tbl_t) = None"
    by (simp add: abi_no_structs_def extractStruct_def)
  have h3: "(extractStruct (abi_structs abi_with_r) (table_type tbl_t) = None)
              \<noteq> (extractStruct (abi_structs abi_no_structs) (table_type tbl_t) = None)"
    by (simp add: e1 e2)
  show ?thesis
    using compareTables_one_miss_updated [OF h1 h2 h3] h1 h2 e1 e2 by simp
qed

lemma compareStep_cong:
  assumes "table_name ` set (abi_tables n1) = table_name ` set (abi_tables n2)"
    and "abi_structs n1 = abi_structs n2"
  shows "compareStep e n1 acc t = compareStep e n2 acc t"
proof (cases "tablePresent n1 t")
  case True
  then have "tablePresent n2 t" using assms(1) by (simp add: tablePresent_def)
  with True show ?thesis by (simp add: compareStep_present assms(2))
next
  case False
  then have "\<not> tablePresent n2 t" using assms(1) by (simp add: tablePresent_def)
  with False show ?thesis by (simp add: compareStep_absent)
qed

text \<open>
  C10. Both record descriptors are resolved with the record-type name stored on the
  existing schema's table entry: the updated list is exactly the names of the existing
  tables that are present in the candidate and whose own record-type name resolves to
  different descriptors in the two record lists. Rewriting the record-type fields of the
  candidate's tables in any way leaves the result of the differ unchanged.
\<close>

theorem compareTables_ignores_candidate_type:
  "updated (compareTables existingABI newAbi) =
     map table_name
       (filter (\<lambda>t. findIndex (\<lambda>item. table_name item = table_name t) (abi_tables newAbi) \<ge> 0
          \<and> extractStruct (abi_structs existingABI) (table_type t)
               \<noteq> extractStruct (abi_structs newAbi) (table_type t))
        (abi_tables existingABI))
   \<and> compareTables existingABI
         (newAbi\<lparr>abi_tables := map (\<lambda>t. t\<lparr>table_type := f t\<rparr>) (abi_tables newAbi)\<rparr>)
       = compareTables existingABI newAbi"
proof
  have p: "\<And>t. (0 \<le> findIndex (\<lambda>item. table_name item = table_name t) (abi_tables newAbi))
             = tablePresent newAbi t"
    using findIndex_present [of _ newAbi] by (simp add: not_less [symmetric])
  show "updated (compareTables existingABI newAbi) =
     map table_name
       (filter (\<lambda>t. findIndex (\<lambda>item. table_name item = table_name t) (abi_tables newAbi) \<ge> 0
          \<and> extractStruct (abi_structs existingABI) (table_type t)
               \<noteq> extractStruct (abi_structs newAbi) (table_type t))
        (abi_tables existingABI))"
    by (simp add: compareTables_updated p)
next
  let ?n = "newAbi\<lparr>abi_tables := map (\<lambda>t. t\<lparr>table_type := f t\<rparr>) (abi_tables newAbi)\<rparr>"
  have names: "table_name ` set (abi_tables ?n) = table_name ` set (abi_tables newAbi)"
    by (simp add: image_image)
  have "compareStep existingABI ?n = compareStep existingABI newAbi"
    by (intro ext, rule compareStep_cong [OF names]) simp
  then show "compareTables existingABI ?n = compareTables existingABI newAbi"
    by (simp add: compareTables_def)
qed

subsection \<open>The risk assessor\<close>

lemma hasRows_iff:
  "hasRows rpc account t \<longleftrightarrow> (\<exists>rows. rpc account t = Inr rows \<and> length rows > 0)"
  by (cases "rpc account t") (auto simp: hasRows_def)

lemma probeTable_eq:
  "probeTable rpc account t = Inr (if hasRows rpc account t then Some t else None)"
  by (cases "rpc account t") (auto simp: probeTable_def hasRows_def)

lemma promise_all_Inr: "promise_all (map Inr xs) = Inr xs"
  by (induction xs) auto

lemma promise_all_probe:
  "promise_all (map (probeTable rpc account) tables) =
     Inr (map (\<lambda>t. if hasRows rpc account t then Some t else None) tables)"
proof -
  have "map (probeTable rpc account) tables =
        map Inr (map (\<lambda>t. if hasRows rpc account t then Some t else None) tables)"
    by (simp add: probeTable_eq)
  then show ?thesis by (simp only: promise_all_Inr)
qed

lemma filter_probe:
  "filter (\<lambda>item. item \<noteq> None) (map (\<lambda>t. if hasRows rpc account t then Some t else None) tables)
     = map Some (filter (hasRows rpc account) tables)"
  by (induction tables) auto

lemma checkDataExists_eq:
  "checkDataExists rpc account tables = Inr (map Some (filter (hasRows rpc account) tables))"
  by (simp only: checkDataExists_def promise_all_probe sum.case filter_probe)

text \<open>
  C4. The risk assessor never throws: for every chain and every list of table names it
  returns a list, and a name is in that list iff it is one of the given names and its
  query succeeds with at least one row. A rejected query counts as no data.
\<close>

theorem checkDataExists_absorbs_failures:
  "\<exists>r. checkDataExists rpc account tables = Inr r
       \<and> (\<forall>n. Some n \<in> set r \<longleftrightarrow>
              n \<in> set tables \<and> (\<exists>rows. rpc account n = Inr rows \<and> length rows > 0))"
  by (auto simp: checkDataExists_eq hasRows_iff)

theorem checkDataExists_absorbs_failures_witness:
  "\<exists>r. checkDataExists rpc_mixed ''acct'' [''t1'', ''t2'', ''t3''] = Inr r
       \<and> Some ''t1'' \<in> set r \<and> Some ''t2'' \<notin> set r \<and> Some ''t3'' \<notin> set r"
proof -
  from checkDataExists_absorbs_failures [of rpc_mixed "''acct''" "[''t1'', ''t2'', ''t3'']"]
  obtain r where r: "checkDataExists rpc_mixed ''acct'' [''t1'', ''t2'', ''t3''] = Inr r"
    and iff: "\<And>n. Some n \<in> set r \<longleftrightarrow>
                n \<in> set [''t1'', ''t2'', ''t3'']
                \<and> (\<exists>rows. rpc_mixed ''acct'' n = Inr rows \<and> length rows > 0)"
    by blast
  have "Some ''t1'' \<in> set r"
    unfolding iff by (simp add: rpc_mixed_def rpc_one_row_def)
  moreover have "Some ''t2'' \<notin> set r"
    unfolding iff by (simp add: rpc_mixed_def)
  moreover have "Some ''t3'' \<notin> set r"
    unfolding iff by (simp add: rpc_mixed_def)
  ultimately show ?thesis using r by blast
qed

text \<open>
  C5 (as stated). A name given twice whose table holds data is returned twice.
\<close>

theorem checkDataExists_duplicates_counterexample:
  "checkDataExists rpc_one_row ''acct'' [''t'', ''t''] = Inr [Some ''t'', Some ''t'']
   \<and> \<not> distinct [Some ''t'', Some ''t'']"
  by (simp add: checkDataExists_def probeTable_def rpc_one_row_def)

text \<open>
  C5 (amended). The list returned by the risk assessor contains no null placeholder,
  and it contains no duplicate name whenever the given list of names contains none.
\<close>

theorem checkDataExists_no_null:
  "\<exists>r. checkDataExists rpc account tables = Inr r
       \<and> None \<notin> set r \<and> (distinct tables \<longrightarrow> distinct r)"
  by (auto simp: checkDataExists_eq distinct_map)

theorem checkDataExists_no_null_witness:
  "distinct [''t1'', ''t2'', ''t3'']
   \<and> (\<exists>r. checkDataExists rpc_mixed ''acct'' [''t1'', ''t2'', ''t3''] = Inr r
          \<and> None \<notin> set r \<and> distinct r)"
proof -
  have d: "distinct [''t1'', ''t2'', ''t3'']" by simp
  from checkDataExists_no_null [of rpc_mixed "''acct''" "[''t1'', ''t2'', ''t3'']"]
  obtain r where "checkDataExists rpc_mixed ''acct'' [''t1'', ''t2'', ''t3''] = Inr r"
    and "None \<notin> set r"
    and "distinct [''t1'', ''t2'', ''t3''] \<longrightarrow> distinct r"
    by blast
  with d show ?thesis by blast
qed

subsection \<open>The error classifier\<close>

lemma getHintFor_first:
  "i < length hs \<Longrightarrow> patternMatches (pattern (hs ! i)) msg \<Longrightarrow>
   (\<forall>j<i. \<not> patternMatches (pattern (hs ! j)) msg) \<Longrightarrow>
   getHintFor hs msg = Some (hint (hs ! i))"
proof (induction hs arbitrary: i)
  case Nil
  then show ?case by simp
next
  case (Cons e hs)
  show ?case
  proof (cases i)
    case 0
    with Cons.prems show ?thesis by simp
  next
    case (Suc k)
    from Cons.prems(3) Suc have e: "\<not> patternMatches (pattern e) msg" by auto
    have "\<forall>j<k. \<not> patternMatches (pattern (hs ! j)) msg"
    proof (intro allI impI)
      fix j assume "j < k"
      then have "Suc j < i" using Suc by simp
      with Cons.prems(3) show "\<not> patternMatches (pattern (hs ! j)) msg" by fastforce
    qed
    with Cons.IH [of k] Cons.prems(1,2) Suc e show ?thesis by simp
  qed
qed

lemma getHintFor_none:
  "(\<forall>e \<in> set hs. \<not> patternMatches (pattern e) msg) \<Longrightarrow> getHintFor hs msg = None"
  by (induction hs) auto

lemma str_includes_iff: "str_includes s pat \<longleftrightarrow> (\<exists>pre post. s = pre @ pat @ post)"
proof (induction s)
  case Nil
  show ?case by auto
next
  case (Cons c cs)
  show ?case
  proof
    assume "str_includes (c # cs) pat"
    then consider "prefix pat (c # cs)" | "str_includes cs pat" by auto
    then show "\<exists>pre post. c # cs = pre @ pat @ post"
    proof cases
      case 1
      then obtain post where "c # cs = pat @ post" by (auto simp: prefix_def)
      then have "c # cs = [] @ pat @ post" by simp
      then show ?thesis by blast
    next
      case 2
      with Cons obtain pre post where "cs = pre @ pat @ post" by auto
      then have "c # cs = (c # pre) @ pat @ post" by simp
      then show ?thesis by blast
    qed
  next
    assume "\<exists>pre post. c # cs = pre @ pat @ post"
    then obtain pre post where eq: "c # cs = pre @ pat @ post" by auto
    show "str_includes (c # cs) pat"
    proof (cases pre)
      case Nil
      with eq have "prefix pat (c # cs)" by (simp add: prefix_def)
      then show ?thesis by simp
    next
      case (Cons a pre')
      with eq have "cs = pre' @ pat @ post" by simp
      with Cons.IH have "str_includes cs pat" by blast
      then show ?thesis by simp
    qed
  qed
qed

text \<open>
  C9. The classifier is a total function of the message. It returns the hint of the
  first entry of \<open>ERROR_HINTS\<close> whose pattern matches the message, and no hint when no
  entry matches. A string matcher matches iff its lower-cased text occurs in the
  lower-cased message.
\<close>

theorem getHintForError_first_match:
  "(\<forall>i. i < length ERROR_HINTS \<and> patternMatches (pattern (ERROR_HINTS ! i)) msg
         \<and> (\<forall>j<i. \<not> patternMatches (pattern (ERROR_HINTS ! j)) msg)
       \<longrightarrow> getHintForError msg = Some (hint (ERROR_HINTS ! i)))
   \<and> ((\<forall>e \<in> set ERROR_HINTS. \<not> patternMatches (pattern e) msg)
       \<longrightarrow> getHintForError msg = None)
   \<and> (\<forall>p. patternMatches (Str p) msg
         \<longleftrightarrow> (\<exists>pre post. toLowerCase msg = pre @ toLowerCase p @ post))"
  unfolding getHintForError_def
  by (intro conjI allI impI)
     (auto simp: getHintFor_first getHintFor_none str_includes_iff)


theorem getHintForError_first_match_witness:
  \<open>getHintForError ''Unknown Key; missing authority''
     = Some ''The signing key is not available. Make sure you have added the correct private key: proton key:add''
   \<and> getHintForError ''assertion failure: boom'' = None\<close>
proof -
  let ?m = "''Unknown Key; missing authority''"
  have h1: "3 < length ERROR_HINTS" by (simp add: ERROR_HINTS_def)
  have h2: "patternMatches (pattern (ERROR_HINTS ! 3)) ?m" by code_simp
  have h3: "\<forall>j<3. \<not> patternMatches (pattern (ERROR_HINTS ! j)) ?m"
  proof (intro allI impI)
    fix j :: nat assume "j < 3"
    then consider "j = 0" | "j = 1" | "j = 2" by linarith
    then show "\<not> patternMatches (pattern (ERROR_HINTS ! j)) ?m"
    proof cases
      case 1 then show ?thesis by (simp only:) code_simp
    next
      case 2 then show ?thesis by (simp only:) code_simp
    next
      case 3 then show ?thesis by (simp only:) code_simp
    qed
  qed
  have "getHintForError ?m = Some (hint (ERROR_HINTS ! 3))"
    using getHintForError_first_match [of ?m] h1 h2 h3 by blast
  moreover have \<open>hint (ERROR_HINTS ! 3)
      = ''The signing key is not available. Make sure you have added the correct private key: proton key:add''\<close>
    by (simp add: ERROR_HINTS_def)
  moreover have "\<forall>e \<in> set ERROR_HINTS. \<not> patternMatches (pattern e) ''assertion failure: boom''"
    by code_simp
  then have "getHintForError ''assertion failure: boom'' = None"
    using getHintForError_first_match [of "''assertion failure: boom''"] by blast
  ultimately show ?thesis by simp
qed

subsection \<open>The artifact resolver\<close>

text \<open>
  C7 (as stated). A listing with two bytecode files and no schema file contains more
  than one file of a kind, and resolution fails with the not-found error, not with the
  ambiguity error.
\<close>

theorem deployableFromListing_two_wasm_counterexample:
  \<open>length (filter (matchesExt ''wasm'') [''a.wasm'', ''b.wasm'']) = 2
   \<and> deployableFromListing slash_join ''build'' [] [''a.wasm'', ''b.wasm'']
       = Inl (Error ''Cannot find a ".abi file" in build'')
   \<and> deployableFromListing slash_join ''build'' [] [''a.wasm'', ''b.wasm'']
       \<noteq> Inl (Error ''Directory build must contain only 1 WASM and 1 ABI'')\<close>
  by code_simp

text \<open>
  C7 (amended). For every listing of the resolved directory: with exactly one bytecode
  file and exactly one schema file, resolution returns their two paths; with no
  bytecode file it fails with the not-found error for the bytecode file, and with a
  bytecode file but no schema file with the not-found error for the schema file; with
  at least one file of each kind and more than one of either kind it fails with the
  ambiguity error.
\<close>

theorem deployableFromListing_cases:
  \<open>(filter (matchesExt ''wasm'') dirCont = [w] \<and> filter (matchesExt ''abi'') dirCont = [a]
      \<longrightarrow> deployableFromListing join dir tmp dirCont
            = Inr \<lparr>wasmPath = join dir w, abiPath = join dir a, tmpFolder = tmp\<rparr>)
   \<and> (length (filter (matchesExt ''wasm'') dirCont) = 0
      \<longrightarrow> deployableFromListing join dir tmp dirCont
            = Inl (Error (''Cannot find a ".wasm file" in '' @ dir)))
   \<and> (length (filter (matchesExt ''wasm'') dirCont) > 0
        \<and> length (filter (matchesExt ''abi'') dirCont) = 0
      \<longrightarrow> deployableFromListing join dir tmp dirCont
            = Inl (Error (''Cannot find a ".abi file" in '' @ dir)))
   \<and> (length (filter (matchesExt ''wasm'') dirCont) > 0
        \<and> length (filter (matchesExt ''abi'') dirCont) > 0
        \<and> (length (filter (matchesExt ''wasm'') dirCont) > 1
             \<or> length (filter (matchesExt ''abi'') dirCont) > 1)
      \<longrightarrow> deployableFromListing join dir tmp dirCont
            = Inl (Error (''Directory '' @ dir @ '' must contain only 1 WASM and 1 ABI'')))\<close>
  by (simp add: deployableFromListing_def Let_def)

theorem deployableFromListing_cases_witness:
  \<open>deployableFromListing slash_join ''build'' [] [''c.wasm'', ''c.ABI'', ''README.md'']
     = Inr \<lparr>wasmPath = ''build/c.wasm'', abiPath = ''build/c.ABI'', tmpFolder = []\<rparr>
   \<and> deployableFromListing slash_join ''build'' [] [''c.abi'', ''README.md'']
     = Inl (Error ''Cannot find a ".wasm file" in build'')
   \<and> deployableFromListing slash_join ''build'' [] [''c.wasm'', ''README.md'']
     = Inl (Error ''Cannot find a ".abi file" in build'')
   \<and> deployableFromListing slash_join ''build'' [] [''c.wasm'', ''d.wasm'', ''c.abi'']
     = Inl (Error ''Directory build must contain only 1 WASM and 1 ABI'')\<close>
proof -
  note T = deployableFromListing_cases
  have w1: "filter (matchesExt ''wasm'') [''c.wasm'', ''c.ABI'', ''README.md''] = [''c.wasm'']"
    by code_simp
  have a1: "filter (matchesExt ''abi'') [''c.wasm'', ''c.ABI'', ''README.md''] = [''c.ABI'']"
    by code_simp
  have r1: \<open>deployableFromListing slash_join ''build'' [] [''c.wasm'', ''c.ABI'', ''README.md'']
     = Inr \<lparr>wasmPath = ''build/c.wasm'', abiPath = ''build/c.ABI'', tmpFolder = []\<rparr>\<close>
    using T [of "[''c.wasm'', ''c.ABI'', ''README.md'']" "''c.wasm''" "''c.ABI''" slash_join "''build''" "[]"]
      w1 a1 by (simp add: slash_join_def)
  have w2: "length (filter (matchesExt ''wasm'') [''c.abi'', ''README.md'']) = 0"
    by code_simp
  have r2: \<open>deployableFromListing slash_join ''build'' [] [''c.abi'', ''README.md'']
     = Inl (Error ''Cannot find a ".wasm file" in build'')\<close>
    using T [of "[''c.abi'', ''README.md'']" _ _ slash_join "''build''" "[]"] w2 by simp
  have w3: "length (filter (matchesExt ''wasm'') [''c.wasm'', ''README.md'']) > 0
            \<and> length (filter (matchesExt ''abi'') [''c.wasm'', ''README.md'']) = 0"
    by code_simp
  have r3: \<open>deployableFromListing slash_join ''build'' [] [''c.wasm'', ''README.md'']
     = Inl (Error ''Cannot find a ".abi file" in build'')\<close>
    using T [of "[''c.wasm'', ''README.md'']" _ _ slash_join "''build''" "[]"] w3 by simp
  have w4: "length (filter (matchesExt ''wasm'') [''c.wasm'', ''d.wasm'', ''c.abi'']) > 0
            \<and> length (filter (matchesExt ''abi'') [''c.wasm'', ''d.wasm'', ''c.abi'']) > 0
            \<and> (length (filter (matchesExt ''wasm'') [''c.wasm'', ''d.wasm'', ''c.abi'']) > 1
                \<or> length (filter (matchesExt ''abi'') [''c.wasm'', ''d.wasm'', ''c.abi'']) > 1)"
    by code_simp
  have r4: \<open>deployableFromListing slash_join ''build'' [] [''c.wasm'', ''d.wasm'', ''c.abi'']
     = Inl (Error ''Directory build must contain only 1 WASM and 1 ABI'')\<close>
    using T [of "[''c.wasm'', ''d.wasm'', ''c.abi'']" _ _ slash_join "''build''" "[]"] w4 by simp
  show ?thesis using r1 r2 r3 r4 by blast
qed

subsection \<open>The deployment pipeline\<close>


































text \<open>
  C1. Two runs on a GitHub source, from a world without the staging directory. In the
  first the bytecode file cannot be downloaded: the resolver throws after the staging
  directory was created, the removal at the end of \<open>run\<close> is skipped, and the directory
  with the downloaded schema file still exists when the run has ended. In the second
  both downloads succeed and the operator declines at the risk confirmation: the run
  returns normally, submits nothing, and the staging directory is gone.
\<close>

theorem run_github_leaves_staging_directory:
  \<open>dirs empty_world ''/tmp/foo-Ab12'' = None
   \<and> fst (run (env_github False) empty_world)
       = Inl (Error ''Cannot find a ".wasm file" in /tmp/foo-Ab12'')
   \<and> dirs (snd (run (env_github False) empty_world)) ''/tmp/foo-Ab12'' = Some [''c.abi'']
   \<and> fst (run (env_github True) empty_world) = Inr ()
   \<and> trace (snd (run (env_github True) empty_world)) = [Prompted ''confirmedToContinue'' False]
   \<and> dirs (snd (run (env_github True) empty_world)) ''/tmp/foo-Ab12'' = None\<close>
  by code_simp







end
